theory Spec2Isabelle
  imports Main
begin

section \<open>Errors\<close>

text \<open>
  The exceptions that the modelled code and the library calls it makes can raise, as
  values. \<open>KeyError\<close> carries the missing key; \<open>ActionFailed\<close> stands for whatever an
  action passed in by the caller raises. The last three constructors are the error
  names of the specification's taxonomy; no modelled function produces them.
\<close>

datatype error =
    NotImplementedError
  | KeyError string
  | FileExistsError
  | FileNotFoundError
  | IsADirectoryError
  | NotADirectoryError
  | PermissionError
  | ActionFailed
  | RestoreError
  | CheckpointNotFoundError
  | ProvisionError

section \<open>Fixed-length padding of token tensors (rm\_dataset.py)\<close>

text \<open>
  A 1-D integer tensor is a list of integers. \<open>py_slice_upto m xs\<close> is the slice
  \<^verbatim>\<open>xs[:m]\<close>: for \<open>m \<ge> 0\<close> the first \<open>m\<close> elements (all of them when there are
  fewer), for \<open>m < 0\<close> all but the last \<open>-m\<close> elements.
\<close>

definition py_slice_upto :: "int \<Rightarrow> 'a list \<Rightarrow> 'a list" where
  "py_slice_upto m xs =
     (if 0 \<le> m then take (nat m) xs else take (nat (int (length xs) + m)) xs)"

text \<open>
  \<^verbatim>\<open>RMDataset._pad_to_length(self, input_ids, attention_mask)\<close> with
  \<^verbatim>\<open>self.max_length\<close> as the first argument. The current length is read from
  \<^verbatim>\<open>input_ids\<close> alone and the same number of zeros is appended to both tensors.
\<close>

definition pad_to_length :: "int \<Rightarrow> int list \<Rightarrow> int list \<Rightarrow> int list \<times> int list" where
  "pad_to_length max_length input_ids attention_mask =
     (let curr_length = int (length input_ids) in
      if curr_length < max_length then
        (input_ids @ replicate (nat (max_length - curr_length)) 0,
         attention_mask @ replicate (nat (max_length - curr_length)) 0)
      else if curr_length > max_length then
        (py_slice_upto max_length input_ids, py_slice_upto max_length attention_mask)
      else (input_ids, attention_mask))"

section \<open>Rank-gated action (rm\_dataset.py)\<close>

text \<open>
  What one process sees of the process group: \<^verbatim>\<open>torch.distributed.is_initialized()\<close>
  and \<^verbatim>\<open>torch.distributed.get_rank()\<close>.
\<close>

record dist =
  is_initialized :: bool
  get_rank :: int

text \<open>
  The two observable steps of a call: running the action and arriving at
  \<^verbatim>\<open>torch.distributed.barrier()\<close>. A call returns the events in the order in which it
  performed them.
\<close>

datatype event = Ran_download_fn | Reached_barrier

text \<open>
  \<^verbatim>\<open>download_files_distributed(download_fn)\<close>. The action works on a state \<open>'s\<close> that
  all processes share (a file system, a counter) and may raise. When it raises, the
  exception leaves the function at once: the barrier call after it is not reached.
\<close>

definition download_files_distributed ::
  "dist \<Rightarrow> ('s \<Rightarrow> error + 's) \<Rightarrow> 's \<Rightarrow> error + ('s \<times> event list)" where
  "download_files_distributed d download_fn s =
     (if is_initialized d then
        (if get_rank d = 0 then
           (case download_fn s of
              Inl e \<Rightarrow> Inl e
            | Inr s' \<Rightarrow> Inr (s', [Ran_download_fn, Reached_barrier]))
         else Inr (s, [Reached_barrier]))
      else
        (case download_fn s of
           Inl e \<Rightarrow> Inl e
         | Inr s' \<Rightarrow> Inr (s', [Ran_download_fn])))"

text \<open>
  A job: the processes of an active group, given by their ranks, each calling
  \<^verbatim>\<open>download_files_distributed\<close> on the shared state, in the order of the list. Every
  event is tagged with the rank that performed it. The first exception ends the job.
\<close>

fun run_ranks ::
  "int list \<Rightarrow> ('s \<Rightarrow> error + 's) \<Rightarrow> 's \<Rightarrow> error + ('s \<times> (int \<times> event) list)" where
  "run_ranks [] download_fn s = Inr (s, [])"
| "run_ranks (r # rs) download_fn s =
     (case download_files_distributed \<lparr>is_initialized = True, get_rank = r\<rparr> download_fn s of
        Inl e \<Rightarrow> Inl e
      | Inr (s', evs) \<Rightarrow>
          (case run_ranks rs download_fn s' of
             Inl e \<Rightarrow> Inl e
           | Inr (s'', evs') \<Rightarrow> Inr (s'', map (Pair r) evs @ evs')))"

text \<open>The events of one rank in a job's trace, and how often the action ran in it.\<close>

definition events_of :: "int \<Rightarrow> (int \<times> event) list \<Rightarrow> event list" where
  "events_of r tr = map snd (filter (\<lambda>p. fst p = r) tr)"

definition runs :: "(int \<times> event) list \<Rightarrow> nat" where
  "runs tr = length (filter (\<lambda>p. snd p = Ran_download_fn) tr)"

section \<open>RNG state capture and restore (checkpoint\_manager.py)\<close>

text \<open>
  The four generators that the code reads and writes, each a cell holding a state of an
  opaque type \<open>'v\<close>: \<^verbatim>\<open>torch.get_rng_state\<close>/\<^verbatim>\<open>torch.set_rng_state\<close>,
  \<^verbatim>\<open>torch.cuda.get_rng_state\<close>/\<^verbatim>\<open>torch.cuda.set_rng_state\<close>,
  \<^verbatim>\<open>np.random.get_state\<close>/\<^verbatim>\<open>np.random.set_state\<close> and
  \<^verbatim>\<open>random.getstate\<close>/\<^verbatim>\<open>random.setstate\<close>. The getters return a copy of the
  state, the setters install the state they are given; the accelerator is taken to be
  present.
\<close>

record 'v rng =
  torch_cpu :: 'v
  torch_cuda :: 'v
  numpy_random :: 'v
  python_random :: 'v

text \<open>The captured state is a Python dict from key strings to generator states.\<close>

type_synonym 'v rng_state = "string \<rightharpoonup> 'v"

definition get_rng_state :: "'v rng \<Rightarrow> 'v rng_state" where
  "get_rng_state g =
     [''cpu'' \<mapsto> torch_cpu g,
      ''cuda'' \<mapsto> torch_cuda g,
      ''numpy'' \<mapsto> numpy_random g,
      ''random'' \<mapsto> python_random g]"

text \<open>
  \<^verbatim>\<open>load_rng_state(rng_state)\<close>: four statements in order; each subscript
  \<^verbatim>\<open>rng_state[k]\<close> raises \<open>KeyError k\<close> when the key is absent. The generators
  written before the exception keep their new state, so the generators are returned
  together with the outcome.
\<close>

definition load_rng_state :: "'v rng_state \<Rightarrow> 'v rng \<Rightarrow> (error + unit) \<times> 'v rng" where
  "load_rng_state rng_state g =
     (case rng_state ''cpu'' of
        None \<Rightarrow> (Inl (KeyError ''cpu''), g)
      | Some v1 \<Rightarrow>
          (let g1 = g\<lparr>torch_cpu := v1\<rparr> in
           case rng_state ''cuda'' of
             None \<Rightarrow> (Inl (KeyError ''cuda''), g1)
           | Some v2 \<Rightarrow>
               (let g2 = g1\<lparr>torch_cuda := v2\<rparr> in
                case rng_state ''numpy'' of
                  None \<Rightarrow> (Inl (KeyError ''numpy''), g2)
                | Some v3 \<Rightarrow>
                    (let g3 = g2\<lparr>numpy_random := v3\<rparr> in
                     case rng_state ''random'' of
                       None \<Rightarrow> (Inl (KeyError ''random''), g3)
                     | Some v4 \<Rightarrow> (Inr (), g3\<lparr>python_random := v4\<rparr>)))))"

text \<open>
  Random draws: any operation \<open>draw\<close> that reads the generators, returns a value and
  leaves the generators advanced. \<open>draws draw n g\<close> are the next \<open>n\<close> values from \<open>g\<close>.
\<close>

fun draws :: "('v rng \<Rightarrow> 'x \<times> 'v rng) \<Rightarrow> nat \<Rightarrow> 'v rng \<Rightarrow> 'x list" where
  "draws draw 0 g = []"
| "draws draw (Suc n) g = (case draw g of (x, g') \<Rightarrow> x # draws draw n g')"

text \<open>
  The keys that \<^verbatim>\<open>load_rng_state\<close> subscripts, in the order of its statements.
\<close>

definition expected_keys :: "string list" where
  "expected_keys = [''cpu'', ''cuda'', ''numpy'', ''random'']"

text \<open>
  The streams that the specification names, by the key under which the code stores
  each: the process-level (interpreter) generator \<^verbatim>\<open>random\<close>, the vectorized-math
  library's \<^verbatim>\<open>numpy\<close> and the accelerator's \<^verbatim>\<open>cuda\<close>.
\<close>

definition spec_streams :: "string set" where
  "spec_streams = {''random'', ''numpy'', ''cuda''}"

section \<open>Paths and the file system\<close>

text \<open>
  \<^verbatim>\<open>os.path.join(a, b)\<close> on POSIX: an absolute \<open>b\<close> replaces \<open>a\<close>; otherwise \<open>b\<close>
  is appended, after a separator unless \<open>a\<close> is empty or ends in one.
\<close>

definition os_path_isabs :: "string \<Rightarrow> bool" where
  "os_path_isabs p = (take 1 p = ''/'')"

definition os_path_join :: "string \<Rightarrow> string \<Rightarrow> string" where
  "os_path_join a b =
     (if os_path_isabs b then b
      else if a = [] \<or> last a = CHR ''/'' then a @ b
      else a @ ''/'' @ b)"

text \<open>\<^verbatim>\<open>path.split('/')\<close> and \<^verbatim>\<open>'/'.join(comps)\<close>.\<close>

fun split_sep :: "string \<Rightarrow> string list" where
  "split_sep [] = [[]]"
| "split_sep (c # cs) =
     (if c = CHR ''/'' then [] # split_sep cs
      else (case split_sep cs of [] \<Rightarrow> [[c]] | w # ws \<Rightarrow> (c # w) # ws))"

fun join_sep :: "string list \<Rightarrow> string" where
  "join_sep [] = []"
| "join_sep [w] = w"
| "join_sep (w # ws) = w @ ''/'' @ join_sep ws"

text \<open>
  The loop of \<^verbatim>\<open>os.path.normpath\<close> over the components: empty components and
  \<^verbatim>\<open>.\<close> are dropped; \<^verbatim>\<open>..\<close> removes the component before it, is kept at the front
  of a relative path and is dropped at the root. \<open>acc\<close> is \<^verbatim>\<open>new_comps\<close>, last
  component first.
\<close>

fun norm_comps :: "bool \<Rightarrow> string list \<Rightarrow> string list \<Rightarrow> string list" where
  "norm_comps initial_slashes acc [] = rev acc"
| "norm_comps initial_slashes acc (part # parts) =
     (if part = [] \<or> part = ''.'' then norm_comps initial_slashes acc parts
      else if part \<noteq> ''..'' \<or> (\<not> initial_slashes \<and> acc = [])
                \<or> (acc \<noteq> [] \<and> hd acc = ''..'')
      then norm_comps initial_slashes (part # acc) parts
      else if acc \<noteq> [] then norm_comps initial_slashes (tl acc) parts
      else norm_comps initial_slashes acc parts)"

definition os_path_normpath :: "string \<Rightarrow> string" where
  "os_path_normpath path =
     (if path = [] then ''.''
      else
        (let initial_slashes =
               (if \<not> os_path_isabs path then 0
                else if take 2 path = ''//'' \<and> take 3 path \<noteq> ''///'' then 2
                else (1::nat));
             parts = norm_comps (initial_slashes \<noteq> 0) [] (split_sep path);
             p = replicate initial_slashes CHR ''/'' @ join_sep parts
         in if p = [] then ''.'' else p))"

text \<open>\<^verbatim>\<open>os.path.abspath(path)\<close>, with the working directory as an argument.\<close>

definition os_path_abspath :: "string \<Rightarrow> string \<Rightarrow> string" where
  "os_path_abspath cwd path =
     os_path_normpath (if os_path_isabs path then path else os_path_join cwd path)"

text \<open>
  The state of the operating system that the modelled calls read and write: the working
  directory of the process; what is found at each path, keyed by the absolute,
  normalized path; the lock files on which a lock is currently held; and the entries
  whose removal the system refuses (a read-only mount, a missing permission). There are
  no symbolic links, and the directory that is to contain a new entry is taken to
  exist and to be writable.
\<close>

datatype node = File | Dir

record fs =
  cwd :: string
  nodes :: "string \<rightharpoonup> node"
  held :: "string set"
  undeletable :: "string list"

definition os_path_exists :: "string \<Rightarrow> fs \<Rightarrow> bool" where
  "os_path_exists path s = (nodes s (os_path_abspath (cwd s) path) \<noteq> None)"

text \<open>
  \<^verbatim>\<open>FileLock(lock_file)\<close> of the \<^verbatim>\<open>filelock\<close> package, entered and left by the
  \<^verbatim>\<open>with\<close> statement. Entering opens the lock file with
  \<^verbatim>\<open>os.open(lock_file, O_RDWR | O_CREAT | O_TRUNC)\<close>, which creates a regular file
  when nothing is there and fails with \<open>IsADirectoryError\<close> on a directory, and then
  takes an exclusive \<^verbatim>\<open>flock\<close> on it; while another holder has the lock it polls
  without a timeout (the default), so the call does not return: the value \<open>None\<close>.
  Leaving unlocks and closes the file, which stays in place.
\<close>

definition FileLock_acquire :: "string \<Rightarrow> fs \<Rightarrow> (error + fs) option" where
  "FileLock_acquire lock_file s =
     (let k = os_path_abspath (cwd s) lock_file in
      case nodes s k of
        Some Dir \<Rightarrow> Some (Inl IsADirectoryError)
      | _ \<Rightarrow>
          if k \<in> held s then None
          else Some (Inr (s\<lparr>nodes := (nodes s)(k \<mapsto> File), held := insert k (held s)\<rparr>)))"

definition FileLock_release :: "string \<Rightarrow> fs \<Rightarrow> fs" where
  "FileLock_release lock_file s =
     s\<lparr>held := held s - {os_path_abspath (cwd s) lock_file}\<rparr>"

text \<open>
  \<^verbatim>\<open>os.makedirs(name, exist_ok=True)\<close>: nothing to do on a directory; on anything else
  that exists, \<^verbatim>\<open>mkdir\<close> fails with \<open>FileExistsError\<close>, which \<^verbatim>\<open>exist_ok\<close> lets
  pass only for a directory; otherwise the directory is created.
\<close>

definition os_makedirs :: "string \<Rightarrow> fs \<Rightarrow> error + fs" where
  "os_makedirs name s =
     (let k = os_path_abspath (cwd s) name in
      case nodes s k of
        Some Dir \<Rightarrow> Inr s
      | Some File \<Rightarrow> Inl FileExistsError
      | None \<Rightarrow> Inr (s\<lparr>nodes := (nodes s)(k \<mapsto> Dir)\<rparr>))"

text \<open>
  \<^verbatim>\<open>shutil.rmtree(path, ignore_errors)\<close>. \<open>is_under x y\<close>: \<open>y\<close> is \<open>x\<close> or lies
  beneath it. An entry can be removed when neither it nor anything that exists beneath
  it is undeletable (a directory must be empty to be removed). On a directory, the
  entries beneath it that can be removed are removed; when the directory itself stays,
  or the path is no directory, the error is passed over if \<^verbatim>\<open>ignore_errors\<close> is set
  and raised otherwise (the model then leaves the state as it was: what was removed
  before the first failure depends on the order of the directory listing).
\<close>

definition is_under :: "string \<Rightarrow> string \<Rightarrow> bool" where
  "is_under x y = (y = x \<or> take (Suc (length x)) y = x @ ''/'')"

definition removable :: "fs \<Rightarrow> string \<Rightarrow> bool" where
  "removable s x = list_all (\<lambda>y. \<not> (is_under x y \<and> nodes s y \<noteq> None)) (undeletable s)"

definition shutil_rmtree :: "string \<Rightarrow> bool \<Rightarrow> fs \<Rightarrow> (error + unit) \<times> fs" where
  "shutil_rmtree path ignore_errors s =
     (let k = os_path_abspath (cwd s) path;
          s' = s\<lparr>nodes := (\<lambda>x. if is_under k x \<and> removable s x then None else nodes s x)\<rparr>
      in case nodes s k of
           Some Dir \<Rightarrow>
             if removable s k then (Inr (), s')
             else if ignore_errors then (Inr (), s')
             else (Inl PermissionError, s)
         | Some File \<Rightarrow>
             if ignore_errors then (Inr (), s) else (Inl NotADirectoryError, s)
         | None \<Rightarrow>
             if ignore_errors then (Inr (), s) else (Inl FileNotFoundError, s))"

section \<open>Locked directory creation (checkpoint\_manager.py)\<close>

text \<open>
  What \<^verbatim>\<open>local_mkdir\<close> reads of its environment: \<^verbatim>\<open>tempfile.gettempdir()\<close> and
  the directory of the module, \<^verbatim>\<open>os.path.dirname(os.path.abspath(__file__))\<close>.
\<close>

record env =
  gettempdir :: string
  package_dir :: string

text \<open>
  \<^verbatim>\<open>local_mkdir(path, use_temp_dir, is_abs)\<close>: the path is rebound according to the
  flags, \<^verbatim>\<open>use_temp_dir\<close> first; the lock is taken on that path and
  \<^verbatim>\<open>os.makedirs\<close> is called on the same path inside the \<^verbatim>\<open>with\<close> block, which
  releases the lock however the block is left. The result is the outcome (an exception
  or the path returned) and the state afterwards, or \<open>None\<close> when the call waits for
  the lock for ever.
\<close>

definition local_mkdir ::
  "env \<Rightarrow> string \<Rightarrow> bool \<Rightarrow> bool \<Rightarrow> fs \<Rightarrow> ((error + string) \<times> fs) option" where
  "local_mkdir e path0 use_temp_dir is_abs s =
     (let path =
            (if use_temp_dir then os_path_join (gettempdir e) (path0 @ ''.lock'')
             else if is_abs then path0
             else os_path_join (package_dir e) path0)
      in case FileLock_acquire path s of
           None \<Rightarrow> None
         | Some (Inl err) \<Rightarrow> Some (Inl err, s)
         | Some (Inr s1) \<Rightarrow>
             (case os_makedirs path s1 of
                Inl err \<Rightarrow> Some (Inl err, FileLock_release path s1)
              | Inr s2 \<Rightarrow> Some (Inr path, FileLock_release path s2)))"

section \<open>The checkpoint manager's own operations (checkpoint\_manager.py)\<close>

text \<open>
  The fields of \<^verbatim>\<open>BaseCheckpointManager\<close> that its own methods read; the model,
  optimizer, scheduler and tokenizer objects are only stored.
\<close>

record manager =
  previous_global_step :: "int option"
  previous_save_local_path :: "string option"
  rank :: int

text \<open>
  \<^verbatim>\<open>load_checkpoint(self, *args, **kwargs)\<close> and \<^verbatim>\<open>save_checkpoint\<close>: whatever the
  arguments, the body is \<^verbatim>\<open>raise NotImplementedError\<close>.
\<close>

definition load_checkpoint :: "manager \<Rightarrow> 'a \<Rightarrow> error + 'r" where
  "load_checkpoint self args = Inl NotImplementedError"

definition save_checkpoint :: "manager \<Rightarrow> 'a \<Rightarrow> error + 'r" where
  "save_checkpoint self args = Inl NotImplementedError"

text \<open>
  \<^verbatim>\<open>remove_previous_save_local_path(self)\<close>: \<open>None\<close> and the empty string are falsy.
  The result is the outcome, the lines printed and the state afterwards.
\<close>

definition remove_previous_save_local_path ::
  "manager \<Rightarrow> fs \<Rightarrow> (error + unit) \<times> string list \<times> fs" where
  "remove_previous_save_local_path self s =
     (case previous_save_local_path self of
        None \<Rightarrow> (Inr (), [], s)
      | Some p \<Rightarrow>
          if p = [] then (Inr (), [], s)
          else
            (let abs_path = os_path_abspath (cwd s) p;
                 out = [''Checkpoint manager remove previous save local path: '' @ abs_path]
             in if \<not> os_path_exists abs_path s then (Inr (), out, s)
                else (case shutil_rmtree abs_path True s of (r, s') \<Rightarrow> (r, out, s'))))"

section \<open>Padding: results\<close>

text \<open>
  C10, as stated, fails: the mask is padded by the number of zeros that \<^verbatim>\<open>input_ids\<close>
  needs, so a mask of another length does not come out with length \<open>max_length\<close>.
  Here \<open>max_length = 4\<close>, two ids and a mask of three: the mask returned has length 5.
\<close>

theorem pad_to_length_mask_length_counterexample:
  "length (snd (pad_to_length 4 [7, 8] [1, 1, 1])) \<noteq> 4"
  by (simp add: pad_to_length_def)

text \<open>
  A negative \<open>max_length\<close> is no length at all: the slice drops elements from the end.
\<close>

lemma pad_to_length_negative_max:
  "pad_to_length (- 1) [7, 8] [1, 1] = ([7], [1])"
  by (simp add: pad_to_length_def py_slice_upto_def)

text \<open>
  C10 (amended): for every \<open>max_length \<ge> 0\<close> and every pair of 1-D tensors of the same
  length, both tensors returned have length exactly \<open>max_length\<close>; shorter inputs are
  the inputs followed by zeros, longer inputs are cut to their first \<open>max_length\<close>
  elements, and inputs of exactly \<open>max_length\<close> elements are returned unchanged.
\<close>

theorem pad_to_length_exact:
  assumes "0 \<le> max_length" and "length attention_mask = length input_ids"
  shows "length (fst (pad_to_length max_length input_ids attention_mask)) = nat max_length
       \<and> length (snd (pad_to_length max_length input_ids attention_mask)) = nat max_length
       \<and> (int (length input_ids) < max_length \<longrightarrow>
            pad_to_length max_length input_ids attention_mask =
              (input_ids @ replicate (nat max_length - length input_ids) 0,
               attention_mask @ replicate (nat max_length - length input_ids) 0))
       \<and> (int (length input_ids) > max_length \<longrightarrow>
            pad_to_length max_length input_ids attention_mask =
              (take (nat max_length) input_ids, take (nat max_length) attention_mask))
       \<and> (int (length input_ids) = max_length \<longrightarrow>
            pad_to_length max_length input_ids attention_mask = (input_ids, attention_mask))"
proof -
  let ?n = "int (length input_ids)"
  consider (short) "?n < max_length" | (long) "?n > max_length" | (same) "?n = max_length"
    by linarith
  then show ?thesis
  proof cases
    case short
    have "nat (max_length - ?n) = nat max_length - length input_ids"
      using assms(1) by linarith
    with short assms show ?thesis
      by (auto simp add: pad_to_length_def Let_def)
  next
    case long
    with assms show ?thesis
      by (auto simp add: pad_to_length_def Let_def py_slice_upto_def)
  next
    case same
    with assms show ?thesis
      by (auto simp add: pad_to_length_def Let_def)
  qed
qed

theorem pad_to_length_exact_witness:
  "pad_to_length 4 [7, 8] [1, 1] = ([7, 8, 0, 0], [1, 1, 0, 0])
 \<and> pad_to_length 2 [7, 8, 9] [1, 1, 1] = ([7, 8], [1, 1])
 \<and> pad_to_length 2 [7, 8] [1, 1] = ([7, 8], [1, 1])"
  using pad_to_length_exact [of 4 "[1, 1]" "[7, 8]"]
        pad_to_length_exact [of 2 "[1, 1, 1]" "[7, 8, 9]"]
        pad_to_length_exact [of 2 "[1, 1]" "[7, 8]"]
  by (simp add: numeral_eq_Suc)

section \<open>Rank-gated action: results\<close>

text \<open>
  In an active group a rank other than 0 never touches the shared state, so a job in
  which rank 0 does not take part leaves it as it was.
\<close>

lemma run_ranks_others:
  "0 \<notin> set rs \<Longrightarrow>
     run_ranks rs download_fn s = Inr (s, map (\<lambda>r. (r, Reached_barrier)) rs)"
  by (induction rs) (auto simp add: download_files_distributed_def)

lemma events_of_barriers:
  "distinct rs \<Longrightarrow>
     events_of q (map (\<lambda>r. (r, Reached_barrier)) rs) =
       (if q \<in> set rs then [Reached_barrier] else [])"
  by (induction rs) (auto simp add: events_of_def)

lemma runs_barriers: "runs (map (\<lambda>r. (r, Reached_barrier)) rs) = 0"
  by (induction rs) (auto simp add: runs_def)

text \<open>
  When the action raises on rank 0 the call raises: that rank does not reach the
  barrier.
\<close>

lemma download_files_distributed_action_raises:
  "download_files_distributed \<lparr>is_initialized = True, get_rank = 0\<rparr>
     (\<lambda>s. Inl ActionFailed) (0::nat) = Inl ActionFailed"
  by (simp add: download_files_distributed_def)

text \<open>
  A job whose ranks are pairwise distinct and include rank 0, in any order of arrival:
  the action runs once, on the state the job started with, and every rank reaches the
  barrier, rank 0 after the action.
\<close>

lemma run_ranks_once:
  assumes "distinct rs" and "0 \<in> set rs" and "download_fn s = Inr s'"
  shows "\<exists>tr. run_ranks rs download_fn s = Inr (s', tr)
           \<and> runs tr = 1
           \<and> (\<forall>q. events_of q tr =
                 (if q \<in> set rs
                  then (if q = 0 then [Ran_download_fn, Reached_barrier] else [Reached_barrier])
                  else []))"
  using assms
proof (induction rs)
  case Nil
  then show ?case by simp
next
  case (Cons r rs)
  show ?case
  proof (cases "r = 0")
    case True
    with Cons.prems have notin: "0 \<notin> set rs" and d: "distinct rs" by simp_all
    let ?tr = "(0, Ran_download_fn) # (0, Reached_barrier) # map (\<lambda>r. (r, Reached_barrier)) rs"
    have run: "run_ranks (r # rs) download_fn s = Inr (s', ?tr)"
      using True Cons.prems(3) run_ranks_others [OF notin, of download_fn s']
      by (simp add: download_files_distributed_def)
    have "runs ?tr = 1"
      using runs_barriers [of rs] by (simp add: runs_def)
    moreover have "events_of q ?tr =
        (if q \<in> set (r # rs)
         then (if q = 0 then [Ran_download_fn, Reached_barrier] else [Reached_barrier])
         else [])" for q
      using True notin events_of_barriers [OF d, of q]
      by (auto simp add: events_of_def)
    ultimately show ?thesis using run by blast
  next
    case False
    with Cons.prems have "distinct rs" and "0 \<in> set rs" and rnotin: "r \<notin> set rs" by auto
    from Cons.IH [OF this(1,2) Cons.prems(3)]
    obtain tr where tr: "run_ranks rs download_fn s = Inr (s', tr)" and once: "runs tr = 1"
      and ev: "\<And>q. events_of q tr =
                 (if q \<in> set rs
                  then (if q = 0 then [Ran_download_fn, Reached_barrier] else [Reached_barrier])
                  else [])"
      by blast
    let ?tr = "(r, Reached_barrier) # tr"
    have run: "run_ranks (r # rs) download_fn s = Inr (s', ?tr)"
      using False tr by (simp add: download_files_distributed_def)
    have "runs ?tr = 1"
      using once by (simp add: runs_def)
    moreover have "events_of q ?tr =
        (if q \<in> set (r # rs)
         then (if q = 0 then [Ran_download_fn, Reached_barrier] else [Reached_barrier])
         else [])" for q
      using False rnotin ev [of q] ev [of r]
      by (auto simp add: events_of_def)
    ultimately show ?thesis using run by blast
  qed
qed

text \<open>
  C1: in an active process group the call runs the action only when the caller's rank
  is 0 and then reaches the barrier (an exception of the action leaves before it); a
  caller of any other rank leaves the shared state alone and reaches the barrier; with
  no active group the action runs directly and no barrier is reached. Across a job of
  pairwise distinct ranks that include rank 0 the action therefore runs exactly once
  and every rank reaches the barrier before its call returns.
\<close>

theorem download_files_distributed_gated:
  "(is_initialized d \<and> get_rank d = 0 \<longrightarrow>
      download_files_distributed d download_fn s =
        (case download_fn s of
           Inl e \<Rightarrow> Inl e
         | Inr s' \<Rightarrow> Inr (s', [Ran_download_fn, Reached_barrier])))
 \<and> (is_initialized d \<and> get_rank d \<noteq> 0 \<longrightarrow>
      download_files_distributed d download_fn s = Inr (s, [Reached_barrier]))
 \<and> (\<not> is_initialized d \<longrightarrow>
      download_files_distributed d download_fn s =
        (case download_fn s of
           Inl e \<Rightarrow> Inl e
         | Inr s' \<Rightarrow> Inr (s', [Ran_download_fn])))
 \<and> (distinct rs \<and> 0 \<in> set rs \<and> download_fn s = Inr s' \<longrightarrow>
      (\<exists>tr. run_ranks rs download_fn s = Inr (s', tr)
         \<and> runs tr = 1
         \<and> (\<forall>q. events_of q tr =
               (if q \<in> set rs
                then (if q = 0 then [Ran_download_fn, Reached_barrier] else [Reached_barrier])
                else []))))"
  using run_ranks_once [of rs download_fn s s']
  by (simp add: download_files_distributed_def)

text \<open>
  The specification's scenario: four ranks and an action that increments a shared
  counter. The counter goes from 0 to 1.
\<close>

theorem download_files_distributed_gated_witness:
  "download_files_distributed \<lparr>is_initialized = True, get_rank = 0\<rparr> (\<lambda>n. Inr (Suc n)) (0::nat)
     = Inr (1, [Ran_download_fn, Reached_barrier])
 \<and> download_files_distributed \<lparr>is_initialized = True, get_rank = 3\<rparr> (\<lambda>n. Inr (Suc n)) (0::nat)
     = Inr (0, [Reached_barrier])
 \<and> download_files_distributed \<lparr>is_initialized = False, get_rank = 0\<rparr> (\<lambda>n. Inr (Suc n)) (0::nat)
     = Inr (1, [Ran_download_fn])
 \<and> run_ranks [0, 1, 2, 3] (\<lambda>n. Inr (Suc n)) (0::nat)
     = Inr (1, [(0, Ran_download_fn), (0, Reached_barrier), (1, Reached_barrier),
                (2, Reached_barrier), (3, Reached_barrier)])
 \<and> runs [(0, Ran_download_fn), (0, Reached_barrier), (1, Reached_barrier),
          (2, Reached_barrier), (3, Reached_barrier)] = 1"
  using download_files_distributed_gated
          [of "\<lparr>is_initialized = True, get_rank = 0\<rparr>" "\<lambda>n. Inr (Suc n)" "0::nat" "[0, 1, 2, 3]" 1]
        download_files_distributed_gated
          [of "\<lparr>is_initialized = True, get_rank = 3\<rparr>" "\<lambda>n. Inr (Suc n)" "0::nat" "[0, 1, 2, 3]" 1]
        download_files_distributed_gated
          [of "\<lparr>is_initialized = False, get_rank = 0\<rparr>" "\<lambda>n. Inr (Suc n)" "0::nat" "[0, 1, 2, 3]" 1]
  by (auto simp add: runs_def download_files_distributed_def)

section \<open>RNG state: results\<close>

text \<open>
  Restoring a captured state brings all four generators back to the state at capture,
  whatever was drawn in between.
\<close>

lemma load_rng_state_restores:
  "load_rng_state (get_rng_state g) g' = (Inr (), g)"
  by (simp add: load_rng_state_def get_rng_state_def)

text \<open>
  C2: \<^verbatim>\<open>load_rng_state(get_rng_state())\<close> succeeds and leaves every generator
  unchanged, so the next \<open>n\<close> draws of any drawing operation are those that would
  have been produced without the round trip.
\<close>

theorem rng_round_trip:
  "load_rng_state (get_rng_state g) g = (Inr (), g)
 \<and> draws draw n (snd (load_rng_state (get_rng_state g) g)) = draws draw n g"
proof -
  have "load_rng_state (get_rng_state g) g = (Inr (), g)"
    by (simp add: load_rng_state_def get_rng_state_def)
  then show ?thesis by simp
qed

text \<open>
  C6, as stated, fails: the specification names three streams and the captured dict
  has four entries. Whichever three of them are taken for the streams of the
  specification, one more is captured; read by their names, the extra one is
  \<^verbatim>\<open>cpu\<close>, the state of torch's CPU generator.
\<close>

theorem get_rng_state_streams_counterexample:
  "card (dom (get_rng_state
       \<lparr>torch_cpu = 1::nat, torch_cuda = 2, numpy_random = 3, python_random = 4\<rparr>)) = 4
 \<and> card spec_streams = 3
 \<and> dom (get_rng_state
       \<lparr>torch_cpu = 1::nat, torch_cuda = 2, numpy_random = 3, python_random = 4\<rparr>)
     \<noteq> spec_streams"
proof -
  let ?g = "\<lparr>torch_cpu = 1::nat, torch_cuda = 2, numpy_random = 3, python_random = 4\<rparr>"
  have "card (dom (get_rng_state ?g)) = 4"
    by (simp add: get_rng_state_def)
  moreover have "card spec_streams = 3"
    by (simp add: spec_streams_def)
  ultimately show ?thesis by auto
qed

text \<open>
  C6 (amended): every call of \<^verbatim>\<open>get_rng_state\<close> returns the state of exactly four
  generators, the same four whatever their state: torch's CPU generator under
  \<^verbatim>\<open>cpu\<close>, the accelerator's under \<^verbatim>\<open>cuda\<close>, NumPy's under \<^verbatim>\<open>numpy\<close> and
  the interpreter's \<^verbatim>\<open>random\<close> module's under \<^verbatim>\<open>random\<close>.
\<close>

theorem get_rng_state_streams:
  "dom (get_rng_state g) = {''cpu'', ''cuda'', ''numpy'', ''random''}
 \<and> get_rng_state g ''cpu'' = Some (torch_cpu g)
 \<and> get_rng_state g ''cuda'' = Some (torch_cuda g)
 \<and> get_rng_state g ''numpy'' = Some (numpy_random g)
 \<and> get_rng_state g ''random'' = Some (python_random g)"
proof -
  have "dom (get_rng_state g) = {''cpu'', ''cuda'', ''numpy'', ''random''}"
    unfolding get_rng_state_def dom_fun_upd by (simp add: insert_commute)
  then show ?thesis by (simp add: get_rng_state_def)
qed

text \<open>
  C7, as stated, fails: a captured state without the accelerator's entry makes
  \<^verbatim>\<open>load_rng_state\<close> raise \<open>KeyError\<close>, not \<open>RestoreError\<close>.
\<close>

theorem load_rng_state_missing_counterexample:
  "fst (load_rng_state [''cpu'' \<mapsto> 1::nat, ''numpy'' \<mapsto> 3, ''random'' \<mapsto> 4]
          \<lparr>torch_cpu = 5, torch_cuda = 6, numpy_random = 7, python_random = 8\<rparr>)
     = Inl (KeyError ''cuda'')
 \<and> fst (load_rng_state [''cpu'' \<mapsto> 1::nat, ''numpy'' \<mapsto> 3, ''random'' \<mapsto> 4]
          \<lparr>torch_cpu = 5, torch_cuda = 6, numpy_random = 7, python_random = 8\<rparr>)
     \<noteq> Inl RestoreError"
  by (simp add: load_rng_state_def)

text \<open>
  C7 (amended): for every captured state that lacks one of the four expected keys,
  \<^verbatim>\<open>load_rng_state\<close> fails with \<open>KeyError\<close> for the first missing key in the order
  \<^verbatim>\<open>cpu\<close>, \<^verbatim>\<open>cuda\<close>, \<^verbatim>\<open>numpy\<close>, \<^verbatim>\<open>random\<close>: no absent stream is skipped
  silently.
\<close>

theorem load_rng_state_missing:
  assumes "k \<in> set expected_keys" and "rng_state k = None"
  shows "\<exists>k'. find (\<lambda>k. rng_state k = None) expected_keys = Some k'
            \<and> fst (load_rng_state rng_state g) = Inl (KeyError k')"
  using assms
  by (auto simp add: expected_keys_def load_rng_state_def Let_def split: option.splits)

theorem load_rng_state_missing_witness:
  "fst (load_rng_state [''cpu'' \<mapsto> 1::nat, ''numpy'' \<mapsto> 3, ''random'' \<mapsto> 4]
          \<lparr>torch_cpu = 5, torch_cuda = 6, numpy_random = 7, python_random = 8\<rparr>)
     = Inl (KeyError ''cuda'')"
  using load_rng_state_missing [of "''cuda''" "[''cpu'' \<mapsto> 1::nat, ''numpy'' \<mapsto> 3, ''random'' \<mapsto> 4]"
          "\<lparr>torch_cpu = 5, torch_cuda = 6, numpy_random = 7, python_random = 8\<rparr>"]
  by (simp add: expected_keys_def)

text \<open>
  The generators restored before the missing key keep their new state: the failure is
  not atomic.
\<close>

lemma load_rng_state_partial:
  "snd (load_rng_state [''cpu'' \<mapsto> 1::nat, ''numpy'' \<mapsto> 3, ''random'' \<mapsto> 4]
          \<lparr>torch_cpu = 5, torch_cuda = 6, numpy_random = 7, python_random = 8\<rparr>)
     = \<lparr>torch_cpu = 1, torch_cuda = 6, numpy_random = 7, python_random = 8\<rparr>"
  by (simp add: load_rng_state_def)

section \<open>Abstract operations: results\<close>

text \<open>
  C9, as stated, fails: called on a checkpoint directory that holds no shard file,
  \<^verbatim>\<open>load_checkpoint\<close> does not fail with \<open>CheckpointNotFoundError\<close>.
\<close>

theorem load_checkpoint_counterexample:
  "(load_checkpoint \<lparr>previous_global_step = None, previous_save_local_path = None, rank = 0\<rparr>
      (''/ckpt/global_step_7'', [] :: string list) :: error + unit)
     \<noteq> Inl CheckpointNotFoundError"
  by (simp add: load_checkpoint_def)

text \<open>
  C9 (amended): every call of \<^verbatim>\<open>BaseCheckpointManager.load_checkpoint\<close>, whether or
  not the shard file of the calling rank is present, fails with
  \<open>NotImplementedError\<close>: a surfaced error, with no fallback to a freshly initialized
  state.
\<close>

theorem load_checkpoint_not_implemented:
  "load_checkpoint self args = Inl NotImplementedError"
  by (simp add: load_checkpoint_def)

section \<open>Locked directory creation: results\<close>

text \<open>
  The lock file is opened, and so created, at the path that is handed to
  \<^verbatim>\<open>os.makedirs\<close> next: \<^verbatim>\<open>os.makedirs\<close> finds a regular file there.
\<close>

lemma FileLock_acquire_cases:
  "FileLock_acquire path s =
     (let k = os_path_abspath (cwd s) path in
      if nodes s k = Some Dir then Some (Inl IsADirectoryError)
      else if k \<in> held s then None
      else Some (Inr (s\<lparr>nodes := (nodes s)(k \<mapsto> File), held := insert k (held s)\<rparr>)))"
  by (simp add: FileLock_acquire_def Let_def split: option.split node.split)

lemma os_makedirs_on_lock_file:
  "os_makedirs path
     (s\<lparr>nodes := (nodes s)(os_path_abspath (cwd s) path \<mapsto> File), held := h\<rparr>)
   = Inl FileExistsError"
  by (simp add: os_makedirs_def)

lemma FileLock_release_after_acquire:
  "os_path_abspath (cwd s) path \<notin> held s \<Longrightarrow>
   FileLock_release path
     (s\<lparr>nodes := n, held := insert (os_path_abspath (cwd s) path) (held s)\<rparr>)
   = s\<lparr>nodes := n\<rparr>"
  by (simp add: FileLock_release_def)

lemma with_lock_outcome:
  "(case FileLock_acquire path s of
      None \<Rightarrow> None
    | Some (Inl err) \<Rightarrow> Some (Inl err, s)
    | Some (Inr s1) \<Rightarrow>
        (case os_makedirs path s1 of
           Inl err \<Rightarrow> Some (Inl err, FileLock_release path s1)
         | Inr s2 \<Rightarrow> Some (Inr path, FileLock_release path s2)))
   = (let k = os_path_abspath (cwd s) path in
      if nodes s k = Some Dir then Some (Inl IsADirectoryError, s)
      else if k \<in> held s then None
      else Some (Inl FileExistsError, s\<lparr>nodes := (nodes s)(k \<mapsto> File)\<rparr>))"
  by (simp add: FileLock_acquire_cases Let_def os_makedirs_on_lock_file
        FileLock_release_after_acquire)

text \<open>
  Every outcome of \<^verbatim>\<open>local_mkdir\<close>: on an existing directory the lock cannot be
  opened; while the lock is held elsewhere the call waits; in every other case the lock
  file now sits at the path and \<^verbatim>\<open>os.makedirs\<close> raises \<open>FileExistsError\<close>.
\<close>

lemma local_mkdir_outcome:
  "local_mkdir e path0 use_temp_dir is_abs s =
     (let path =
            (if use_temp_dir then os_path_join (gettempdir e) (path0 @ ''.lock'')
             else if is_abs then path0
             else os_path_join (package_dir e) path0);
          k = os_path_abspath (cwd s) path
      in if nodes s k = Some Dir then Some (Inl IsADirectoryError, s)
         else if k \<in> held s then None
         else Some (Inl FileExistsError, s\<lparr>nodes := (nodes s)(k \<mapsto> File)\<rparr>))"
  unfolding local_mkdir_def Let_def with_lock_outcome [unfolded Let_def] ..

text \<open>So no call returns a path, and a call that ends has released the lock.\<close>

lemma local_mkdir_never_returns:
  "local_mkdir e path0 use_temp_dir is_abs s \<noteq> Some (Inr p, s')"
  unfolding local_mkdir_outcome Let_def by simp

lemma local_mkdir_releases:
  "local_mkdir e path0 use_temp_dir is_abs s = Some (r, s') \<Longrightarrow> held s' = held s"
  unfolding local_mkdir_outcome Let_def by (auto split: if_splits)

text \<open>
  C3: in scratch mode \<^verbatim>\<open>local_mkdir('ckpt', use_temp_dir=True)\<close> resolves the path to
  \<^verbatim>\<open>/tmp/ckpt.lock\<close>, the input with \<^verbatim>\<open>.lock\<close> appended and not the input placed
  under the scratch root; it leaves a regular file there, creates no directory and
  raises \<open>FileExistsError\<close> instead of returning the path of a created directory.
\<close>

theorem local_mkdir_scratch_fails:
  "local_mkdir \<lparr>gettempdir = ''/tmp'', package_dir = ''/opt/verl/workers/checkpoint''\<rparr>
     ''ckpt'' True True
     \<lparr>cwd = ''/work'', nodes = [''/tmp'' \<mapsto> Dir], held = {}, undeletable = []\<rparr>
   = Some (Inl FileExistsError,
       \<lparr>cwd = ''/work'', nodes = [''/tmp'' \<mapsto> Dir, ''/tmp/ckpt.lock'' \<mapsto> File],
        held = {}, undeletable = []\<rparr>)"
  by (simp add: local_mkdir_def FileLock_acquire_def os_makedirs_def FileLock_release_def
        os_path_join_def os_path_isabs_def os_path_abspath_def os_path_normpath_def)

text \<open>
  C4: when the resolved directory already exists, \<^verbatim>\<open>local_mkdir\<close> does not succeed:
  the lock cannot be opened on a directory and the call raises \<open>IsADirectoryError\<close>.
\<close>

theorem local_mkdir_existing_directory_fails:
  "local_mkdir \<lparr>gettempdir = ''/tmp'', package_dir = ''/opt/verl/workers/checkpoint''\<rparr>
     ''/data/ckpt'' False True
     \<lparr>cwd = ''/work'', nodes = [''/data'' \<mapsto> Dir, ''/data/ckpt'' \<mapsto> Dir], held = {},
      undeletable = []\<rparr>
   = Some (Inl IsADirectoryError,
       \<lparr>cwd = ''/work'', nodes = [''/data'' \<mapsto> Dir, ''/data/ckpt'' \<mapsto> Dir], held = {},
        undeletable = []\<rparr>)"
  by (simp add: local_mkdir_def FileLock_acquire_def os_makedirs_def FileLock_release_def
        os_path_join_def os_path_isabs_def os_path_abspath_def os_path_normpath_def)

text \<open>
  C5: the lock is released when directory creation fails, but the lock path is the
  path of the directory to be created: after \<^verbatim>\<open>local_mkdir('/data/ckpt')\<close> the lock
  file is what is found at \<^verbatim>\<open>/data/ckpt\<close>, and the directory was refused.
\<close>

theorem local_mkdir_lock_file_is_directory_path:
  "local_mkdir \<lparr>gettempdir = ''/tmp'', package_dir = ''/opt/verl/workers/checkpoint''\<rparr>
     ''/data/ckpt'' False True
     \<lparr>cwd = ''/work'', nodes = [''/data'' \<mapsto> Dir], held = {}, undeletable = []\<rparr>
   = Some (Inl FileExistsError,
       \<lparr>cwd = ''/work'', nodes = [''/data'' \<mapsto> Dir, ''/data/ckpt'' \<mapsto> File], held = {},
        undeletable = []\<rparr>)"
  by (simp add: local_mkdir_def FileLock_acquire_def os_makedirs_def FileLock_release_def
        os_path_join_def os_path_isabs_def os_path_abspath_def os_path_normpath_def)

text \<open>
  A second call on the same path finds the lock file that the first call left and fails
  in the same way; the package-relative mode fails like the other two.
\<close>

lemma local_mkdir_second_call:
  "local_mkdir \<lparr>gettempdir = ''/tmp'', package_dir = ''/opt/verl/workers/checkpoint''\<rparr>
     ''/data/ckpt'' False True
     \<lparr>cwd = ''/work'', nodes = [''/data'' \<mapsto> Dir, ''/data/ckpt'' \<mapsto> File], held = {},
      undeletable = []\<rparr>
   = Some (Inl FileExistsError,
       \<lparr>cwd = ''/work'', nodes = [''/data'' \<mapsto> Dir, ''/data/ckpt'' \<mapsto> File], held = {},
        undeletable = []\<rparr>)"
  by (simp add: local_mkdir_def FileLock_acquire_def os_makedirs_def FileLock_release_def
        os_path_join_def os_path_isabs_def os_path_abspath_def os_path_normpath_def)

lemma local_mkdir_package_relative:
  "local_mkdir \<lparr>gettempdir = ''/tmp'', package_dir = ''/opt/verl/workers/checkpoint''\<rparr>
     ''ckpt'' False False
     \<lparr>cwd = ''/work'', nodes = [''/opt/verl/workers/checkpoint'' \<mapsto> Dir], held = {},
      undeletable = []\<rparr>
   = Some (Inl FileExistsError,
       \<lparr>cwd = ''/work'',
        nodes = [''/opt/verl/workers/checkpoint'' \<mapsto> Dir,
                 ''/opt/verl/workers/checkpoint/ckpt'' \<mapsto> File],
        held = {}, undeletable = []\<rparr>)"
  by (simp add: local_mkdir_def FileLock_acquire_def os_makedirs_def FileLock_release_def
        os_path_join_def os_path_isabs_def os_path_abspath_def os_path_normpath_def)

section \<open>Cleanup of the previous checkpoint: results\<close>

text \<open>With \<^verbatim>\<open>ignore_errors=True\<close>, \<^verbatim>\<open>shutil.rmtree\<close> does not raise.\<close>

lemma shutil_rmtree_ignore_errors: "fst (shutil_rmtree path True s) = Inr ()"
  by (simp add: shutil_rmtree_def Let_def split: option.split node.split)

text \<open>
  C8, as stated, fails in its last part: a failure to delete is not logged. With an
  entry that cannot be removed the tracked directory stays in place and the call
  returns normally, and the only line printed is the announcement of the path, the
  same line as in the run in which the deletion succeeds.
\<close>

theorem remove_previous_save_local_path_unlogged_counterexample:
  "fst (remove_previous_save_local_path
          \<lparr>previous_global_step = Some 1, previous_save_local_path = Some ''ckpt/step_1'', rank = 0\<rparr>
          \<lparr>cwd = ''/work'',
           nodes = [''/work/ckpt/step_1'' \<mapsto> Dir, ''/work/ckpt/step_1/model.pt'' \<mapsto> File],
           held = {}, undeletable = [''/work/ckpt/step_1/model.pt'']\<rparr>) = Inr ()
 \<and> nodes (snd (snd (remove_previous_save_local_path
          \<lparr>previous_global_step = Some 1, previous_save_local_path = Some ''ckpt/step_1'', rank = 0\<rparr>
          \<lparr>cwd = ''/work'',
           nodes = [''/work/ckpt/step_1'' \<mapsto> Dir, ''/work/ckpt/step_1/model.pt'' \<mapsto> File],
           held = {}, undeletable = [''/work/ckpt/step_1/model.pt'']\<rparr>))) ''/work/ckpt/step_1''
     = Some Dir
 \<and> fst (snd (remove_previous_save_local_path
          \<lparr>previous_global_step = Some 1, previous_save_local_path = Some ''ckpt/step_1'', rank = 0\<rparr>
          \<lparr>cwd = ''/work'',
           nodes = [''/work/ckpt/step_1'' \<mapsto> Dir, ''/work/ckpt/step_1/model.pt'' \<mapsto> File],
           held = {}, undeletable = [''/work/ckpt/step_1/model.pt'']\<rparr>))
     = [''Checkpoint manager remove previous save local path: /work/ckpt/step_1'']
 \<and> nodes (snd (snd (remove_previous_save_local_path
          \<lparr>previous_global_step = Some 1, previous_save_local_path = Some ''ckpt/step_1'', rank = 0\<rparr>
          \<lparr>cwd = ''/work'',
           nodes = [''/work/ckpt/step_1'' \<mapsto> Dir, ''/work/ckpt/step_1/model.pt'' \<mapsto> File],
           held = {}, undeletable = []\<rparr>))) ''/work/ckpt/step_1''
     = None
 \<and> fst (snd (remove_previous_save_local_path
          \<lparr>previous_global_step = Some 1, previous_save_local_path = Some ''ckpt/step_1'', rank = 0\<rparr>
          \<lparr>cwd = ''/work'',
           nodes = [''/work/ckpt/step_1'' \<mapsto> Dir, ''/work/ckpt/step_1/model.pt'' \<mapsto> File],
           held = {}, undeletable = []\<rparr>))
     = [''Checkpoint manager remove previous save local path: /work/ckpt/step_1'']"
proof -
  have abs1: "os_path_abspath ''/work'' ''ckpt/step_1'' = ''/work/ckpt/step_1''"
    by (simp add: os_path_abspath_def os_path_normpath_def os_path_isabs_def os_path_join_def)
  have abs2: "os_path_abspath ''/work'' ''/work/ckpt/step_1'' = ''/work/ckpt/step_1''"
    by (simp add: os_path_abspath_def os_path_normpath_def os_path_isabs_def os_path_join_def)
  show ?thesis
    by (simp add: remove_previous_save_local_path_def Let_def abs1 abs2 os_path_exists_def
          shutil_rmtree_def removable_def is_under_def)
qed

text \<open>
  C8 (amended): \<^verbatim>\<open>remove_previous_save_local_path\<close> never raises; when no previous
  path is tracked (\<open>None\<close> or the empty string) it returns with no output and no
  change; when one is tracked it prints one line announcing the absolute path, whether
  or not the deletion that follows succeeds, and when nothing exists at that path the
  file system is left unchanged. Failures while deleting are ignored: neither fatal
  nor logged.
\<close>

theorem remove_previous_save_local_path_best_effort:
  "fst (remove_previous_save_local_path self s) = Inr ()
 \<and> (previous_save_local_path self = None \<or> previous_save_local_path self = Some [] \<longrightarrow>
      remove_previous_save_local_path self s = (Inr (), [], s))
 \<and> (previous_save_local_path self = Some p \<and> p \<noteq> [] \<longrightarrow>
      fst (snd (remove_previous_save_local_path self s)) =
        [''Checkpoint manager remove previous save local path: '' @ os_path_abspath (cwd s) p])
 \<and> (previous_save_local_path self = Some p \<and> p \<noteq> []
        \<and> \<not> os_path_exists (os_path_abspath (cwd s) p) s \<longrightarrow>
      snd (snd (remove_previous_save_local_path self s)) = s)"
proof -
  have "fst (remove_previous_save_local_path self s) = Inr ()"
    using shutil_rmtree_ignore_errors
    by (simp add: remove_previous_save_local_path_def Let_def split_beta split: option.split)
  moreover have "previous_save_local_path self = None \<or> previous_save_local_path self = Some [] \<longrightarrow>
      remove_previous_save_local_path self s = (Inr (), [], s)"
    by (auto simp add: remove_previous_save_local_path_def)
  moreover have "previous_save_local_path self = Some p \<and> p \<noteq> [] \<longrightarrow>
      fst (snd (remove_previous_save_local_path self s)) =
        [''Checkpoint manager remove previous save local path: '' @ os_path_abspath (cwd s) p]"
    by (simp add: remove_previous_save_local_path_def Let_def split_beta)
  moreover have "previous_save_local_path self = Some p \<and> p \<noteq> []
        \<and> \<not> os_path_exists (os_path_abspath (cwd s) p) s \<longrightarrow>
      snd (snd (remove_previous_save_local_path self s)) = s"
    by (simp add: remove_previous_save_local_path_def Let_def split_beta)
  ultimately show ?thesis by blast
qed

theorem remove_previous_save_local_path_best_effort_witness:
  "remove_previous_save_local_path
     \<lparr>previous_global_step = None, previous_save_local_path = None, rank = 0\<rparr>
     \<lparr>cwd = ''/work'', nodes = Map.empty, held = {}, undeletable = []\<rparr>
   = (Inr (), [], \<lparr>cwd = ''/work'', nodes = Map.empty, held = {}, undeletable = []\<rparr>)
 \<and> remove_previous_save_local_path
     \<lparr>previous_global_step = Some 1, previous_save_local_path = Some ''ckpt/step_1'', rank = 0\<rparr>
     \<lparr>cwd = ''/work'', nodes = Map.empty, held = {}, undeletable = []\<rparr>
   = (Inr (), [''Checkpoint manager remove previous save local path: /work/ckpt/step_1''],
      \<lparr>cwd = ''/work'', nodes = Map.empty, held = {}, undeletable = []\<rparr>)"
proof -
  have abs1: "os_path_abspath ''/work'' ''ckpt/step_1'' = ''/work/ckpt/step_1''"
    by (simp add: os_path_abspath_def os_path_normpath_def os_path_isabs_def os_path_join_def)
  have abs2: "os_path_abspath ''/work'' ''/work/ckpt/step_1'' = ''/work/ckpt/step_1''"
    by (simp add: os_path_abspath_def os_path_normpath_def os_path_isabs_def os_path_join_def)
  show ?thesis
    using remove_previous_save_local_path_best_effort
            [of "\<lparr>previous_global_step = None, previous_save_local_path = None, rank = 0\<rparr>"
                "\<lparr>cwd = ''/work'', nodes = Map.empty, held = {}, undeletable = []\<rparr>"
                "''ckpt/step_1''"]
          remove_previous_save_local_path_best_effort
            [of "\<lparr>previous_global_step = Some 1, previous_save_local_path = Some ''ckpt/step_1'',
                  rank = 0\<rparr>"
                "\<lparr>cwd = ''/work'', nodes = Map.empty, held = {}, undeletable = []\<rparr>"
                "''ckpt/step_1''"]
    by (simp add: abs1 abs2 os_path_exists_def prod_eq_iff)
qed

end
